theory Spec2Isabelle
  imports Complex_Main
begin

section \<open>A.E.G.I.S Fast Brain: a shallow embedding\<close>

text \<open>
  The repository wraps a third-party inference engine (\<^verbatim>\<open>llama_cpp.Llama\<close>), a model-hub
  client (\<^verbatim>\<open>hf_hub_download\<close>), the filesystem, the monotonic clock and the logger.
  The wrapper's own code is embedded as HOL functions over an explicit world state; the
  external collaborators are fields of an environment record, so every theorem holds for
  every engine, every hub client and every clock.
\<close>

subsection \<open>Paths (\<^verbatim>\<open>pathlib.Path\<close>)\<close>

text \<open>
  A path is its anchor (absolute or not) and its list of components. \<^verbatim>\<open>p.parent\<close> drops
  the last component (and leaves the root or \<^verbatim>\<open>.\<close> alone); \<^verbatim>\<open>p / name\<close> is used by the
  source only with single-component literal names.
\<close>

datatype path = Path (is_absolute: bool) (parts: "string list")

definition parent :: "path \<Rightarrow> path" where
  "parent p = Path (is_absolute p) (butlast (parts p))"

definition truediv :: "path \<Rightarrow> string \<Rightarrow> path" where
  "truediv p name = Path (is_absolute p) (parts p @ [name])"

fun join_parts :: "string list \<Rightarrow> string" where
  "join_parts [] = []"
| "join_parts [x] = x"
| "join_parts (x # y # ys) = x @ ''/'' @ join_parts (y # ys)"

definition str_of_path :: "path \<Rightarrow> string" where
  "str_of_path p =
     (if is_absolute p then ''/'' @ join_parts (parts p)
      else if parts p = [] then ''.'' else join_parts (parts p))"

subsection \<open>Strings (\<^verbatim>\<open>str.strip\<close>, \<^verbatim>\<open>str.lower\<close>)\<close>

text \<open>
  A \<^typ>\<open>char\<close> stands for a code point below 256. \<^verbatim>\<open>str.isspace\<close> holds there for
  TAB, LF, VT, FF, CR, the separators FS, GS, RS, US, the space, NEL and the no-break space;
  \<^verbatim>\<open>str.lower\<close> moves A-Z and the Latin-1 capitals (all of 192..222 but the
  multiplication sign 215) up by 32.
\<close>

definition py_isspace :: "char \<Rightarrow> bool" where
  "py_isspace c = ((of_char c :: nat) \<in> {9, 10, 11, 12, 13, 28, 29, 30, 31, 32, 133, 160})"

definition py_strip :: "string \<Rightarrow> string" where
  "py_strip s = rev (dropWhile py_isspace (rev (dropWhile py_isspace s)))"

definition py_lower_char :: "char \<Rightarrow> char" where
  "py_lower_char c =
     (let n = (of_char c :: nat)
      in if (65 \<le> n \<and> n \<le> 90) \<or> (192 \<le> n \<and> n \<le> 222 \<and> n \<noteq> 215)
         then char_of (n + 32) else c)"

definition py_lower :: "string \<Rightarrow> string" where
  "py_lower s = map py_lower_char s"

subsection \<open>Exceptions, log records, external calls\<close>

text \<open>
  Python's exceptions are one universe of values; a function that may raise returns
  \<open>exn + 'a\<close> with \<open>Inl\<close> the raised exception. The external collaborators may raise
  any of them.
\<close>

datatype exn =
    FileNotFoundError string
  | IndexError string
  | ZeroDivisionError string
  | OtherError string string

datatype level = DEBUG | INFO | ERROR

datatype log_arg = StrArg string | IntArg int | FloatArg real | PathArg path

type_synonym log_record = "level \<times> string \<times> log_arg list"

text \<open>A chat message is the dictionary \<^verbatim>\<open>{"role": ..., "content": ...}\<close>.\<close>

record message =
  role :: string
  content :: string

text \<open>
  The part of the engine's completion result that the wrapper reads:
  \<^verbatim>\<open>result["choices"][0]["message"]["content"]\<close> and
  \<^verbatim>\<open>result["usage"]["completion_tokens"]\<close>.
\<close>

record choice =
  message :: message

record usage =
  completion_tokens :: int

record completion =
  choices :: "choice list"
  usage :: usage

text \<open>Every call that leaves the repository's code is recorded, in order.\<close>

datatype call =
    LlamaCall string int int bool
  | ChatCall "message list" real real int
  | MkdirCall path
  | HubDownloadCall string string path

subsection \<open>World and environment\<close>

text \<open>
  \<open>files\<close> is the set of paths for which \<^verbatim>\<open>Path.exists()\<close> holds, \<open>clock_reads\<close>
  counts the calls of \<^verbatim>\<open>time.monotonic()\<close> so far, \<open>logs\<close> are the records handed to
  the module loggers, \<open>stdout\<close> what was printed, \<open>calls\<close> the external calls made,
  and \<open>ext\<close> the internal state of the external collaborators (loaded weights, caches,
  the network).
\<close>

record 's world =
  files :: "path set"
  clock_reads :: nat
  logs :: "log_record list"
  stdout :: "string list"
  calls :: "call list"
  ext :: 's

text \<open>
  \<open>fast_brain_file\<close> and \<open>download_models_file\<close> are \<^verbatim>\<open>Path(__file__).resolve()\<close> in
  the two modules; \<open>hf_hub_download\<close> stands for the hub client followed by
  \<^verbatim>\<open>Path(...)\<close> of the string it returns.

  \<^verbatim>\<open>time.monotonic()\<close> reads a clock that cannot go backwards: a counter of nanoseconds
  since an origin that is not specified. \<open>clock_origin\<close> is the counter at the first read
  and \<open>clock_advance k\<close> the number of nanoseconds by which it has moved on between read
  \<open>k\<close> and the next read, a natural number, zero when both reads fall on the same tick.
\<close>

record ('s, 'h) env =
  fast_brain_file :: path
  download_models_file :: path
  clock_origin :: nat
  clock_advance :: "nat \<Rightarrow> nat"
  Llama :: "string \<Rightarrow> int \<Rightarrow> int \<Rightarrow> bool \<Rightarrow> 's \<Rightarrow> (exn + 'h) \<times> 's"
  create_chat_completion ::
    "'h \<Rightarrow> message list \<Rightarrow> real \<Rightarrow> real \<Rightarrow> int \<Rightarrow> 's \<Rightarrow> (exn + completion) \<times> 's"
  mkdir :: "path \<Rightarrow> path set \<Rightarrow> exn + path set"
  hf_hub_download ::
    "string \<Rightarrow> string \<Rightarrow> path \<Rightarrow> 's \<Rightarrow> path set \<Rightarrow> (exn + path) \<times> 's \<times> path set"

definition log_msg :: "level \<Rightarrow> string \<Rightarrow> log_arg list \<Rightarrow> 's world \<Rightarrow> 's world" where
  "log_msg lv fmt args w = w\<lparr>logs := logs w @ [(lv, fmt, args)]\<rparr>"

definition write_stdout :: "string \<Rightarrow> 's world \<Rightarrow> 's world" where
  "write_stdout s w = w\<lparr>stdout := stdout w @ [s]\<rparr>"

definition print :: "string \<Rightarrow> 's world \<Rightarrow> 's world" where
  "print s w = write_stdout (s @ [CHR 0x0A]) w"

text \<open>
  The counter at the \<open>k\<close>-th read, and the value \<^verbatim>\<open>time.monotonic()\<close> returns there:
  the counter in seconds.
\<close>

fun monotonic_ns :: "('s, 'h) env \<Rightarrow> nat \<Rightarrow> nat" where
  "monotonic_ns env 0 = clock_origin env"
| "monotonic_ns env (Suc k) = monotonic_ns env k + clock_advance env k"

definition monotonic_at :: "('s, 'h) env \<Rightarrow> nat \<Rightarrow> real" where
  "monotonic_at env k = real (monotonic_ns env k) / 1000000000"

definition monotonic :: "('s, 'h) env \<Rightarrow> 's world \<Rightarrow> real \<times> 's world" where
  "monotonic env w = (monotonic_at env (clock_reads w), w\<lparr>clock_reads := Suc (clock_reads w)\<rparr>)"

definition call_Llama ::
  "('s, 'h) env \<Rightarrow> string \<Rightarrow> int \<Rightarrow> int \<Rightarrow> bool \<Rightarrow> 's world \<Rightarrow> (exn + 'h) \<times> 's world" where
  "call_Llama env mp ngl nctx verbose w =
     (let (r, s) = Llama env mp ngl nctx verbose (ext w)
      in (r, w\<lparr>calls := calls w @ [LlamaCall mp ngl nctx verbose], ext := s\<rparr>))"

definition call_create_chat_completion ::
  "('s, 'h) env \<Rightarrow> 'h \<Rightarrow> message list \<Rightarrow> real \<Rightarrow> real \<Rightarrow> int \<Rightarrow> 's world
     \<Rightarrow> (exn + completion) \<times> 's world" where
  "call_create_chat_completion env h msgs temperature top_p max_tokens w =
     (let (r, s) = create_chat_completion env h msgs temperature top_p max_tokens (ext w)
      in (r, w\<lparr>calls := calls w @ [ChatCall msgs temperature top_p max_tokens], ext := s\<rparr>))"

subsection \<open>\<^verbatim>\<open>src/core/prompts.py\<close>\<close>

definition AEGIS_SYSTEM_PROMPT :: string where
  "AEGIS_SYSTEM_PROMPT =
     ''You are A.E.G.I.S, a private, secure, local AI assistant. '' @
     ''You are concise, helpful, and technical.''"

subsection \<open>\<^verbatim>\<open>src/core/brains/fast_brain.py\<close>\<close>

definition PROJECT_ROOT_fb :: "('s, 'h) env \<Rightarrow> path" where
  "PROJECT_ROOT_fb env = parent (parent (parent (parent (fast_brain_file env))))"

definition DEFAULT_MODEL_PATH :: "('s, 'h) env \<Rightarrow> path" where
  "DEFAULT_MODEL_PATH env =
     truediv (truediv (truediv (PROJECT_ROOT_fb env) ''models'') ''fast_brain'')
       ''Meta-Llama-3.1-8B-Instruct-Q4_K_M.gguf''"

text \<open>The instance: \<^verbatim>\<open>self.model_path\<close> and \<^verbatim>\<open>self.llm\<close>.\<close>

record 'h brain =
  model_path :: path
  llm :: 'h

text \<open>
  Line 47, \<^verbatim>\<open>model_path or DEFAULT_MODEL_PATH\<close>: a \<^verbatim>\<open>Path\<close> object is always truthy, so
  only \<^verbatim>\<open>None\<close> selects the default.
\<close>

definition resolve_model_path :: "('s, 'h) env \<Rightarrow> path option \<Rightarrow> path" where
  "resolve_model_path env mp = (case mp of Some p \<Rightarrow> p | None \<Rightarrow> DEFAULT_MODEL_PATH env)"

definition not_found_message :: "path \<Rightarrow> string" where
  "not_found_message p =
     ''Model not found at '' @ str_of_path p @ ''. '' @
     ''Run 'python scripts/download_models.py' first.''"

definition FastBrain_init ::
  "('s, 'h) env \<Rightarrow> path option \<Rightarrow> int \<Rightarrow> int \<Rightarrow> 's world \<Rightarrow> (exn + 'h brain) \<times> 's world" where
  "FastBrain_init env mp n_gpu_layers n_ctx w0 =
     (let self_model_path = resolve_model_path env mp
      in if self_model_path \<notin> files w0
         then (Inl (FileNotFoundError (not_found_message self_model_path)), w0)
         else
           let w1 = log_msg INFO ''Loading Fast Brain model: %s'' [PathArg self_model_path] w0;
               (load_start, w2) = monotonic env w1;
               (res, w3) = call_Llama env (str_of_path self_model_path) n_gpu_layers n_ctx False w2
           in case res of
                Inl e \<Rightarrow> (Inl e, w3)
              | Inr h \<Rightarrow>
                  let (t, w4) = monotonic env w3;
                      load_elapsed = t - load_start;
                      w5 = log_msg INFO ''Fast Brain loaded in %.2f seconds.'' [FloatArg load_elapsed] w4
                  in (Inr \<lparr>model_path = self_model_path, llm = h\<rparr>, w5))"

text \<open>
  Line 111, \<^verbatim>\<open>token_count / elapsed if elapsed > 0 else 0.0\<close>. Python's true division
  raises \<^verbatim>\<open>ZeroDivisionError\<close> on a zero divisor.
\<close>

definition py_truediv :: "real \<Rightarrow> real \<Rightarrow> exn + real" where
  "py_truediv a b = (if b = 0 then Inl (ZeroDivisionError ''float division by zero'') else Inr (a / b))"

definition tokens_per_sec :: "int \<Rightarrow> real \<Rightarrow> exn + real" where
  "tokens_per_sec token_count elapsed =
     (if elapsed > 0 then py_truediv (of_int token_count) elapsed else Inr 0)"

text \<open>
  \<^verbatim>\<open>generate_response\<close> with every parameter given. The instance is returned beside the
  result, as the method receives it by reference.
\<close>

definition generate_response ::
  "('s, 'h) env \<Rightarrow> 'h brain \<Rightarrow> string \<Rightarrow> string \<Rightarrow> real \<Rightarrow> real \<Rightarrow> int \<Rightarrow> 's world
     \<Rightarrow> ((exn + string) \<times> 'h brain) \<times> 's world" where
  "generate_response env self user_input system_prompt temperature top_p max_tokens w0 =
     (let messages = [\<lparr>role = ''system'', content = system_prompt\<rparr>,
                      \<lparr>role = ''user'', content = user_input\<rparr>];
          w1 = log_msg DEBUG ''Generating response for: %.80s...'' [StrArg user_input] w0;
          (start, w2) = monotonic env w1;
          (res, w3) = call_create_chat_completion env (llm self) messages
                        temperature top_p max_tokens w2
      in case res of
           Inl e \<Rightarrow> ((Inl e, self), w3)
         | Inr result \<Rightarrow>
             let (t, w4) = monotonic env w3;
                 elapsed = t - start
             in (case choices result of
                   [] \<Rightarrow> ((Inl (IndexError ''list index out of range''), self), w4)
                 | c # _ \<Rightarrow>
                     let response_text = content (message c);
                         token_count = completion_tokens (usage result)
                     in (case tokens_per_sec token_count elapsed of
                           Inl e \<Rightarrow> ((Inl e, self), w4)
                         | Inr tps \<Rightarrow>
                             let w5 = log_msg INFO ''Generated %d tokens in %.2fs (%.1f t/s)''
                                        [IntArg token_count, FloatArg elapsed, FloatArg tps] w4
                             in ((Inr response_text, self), w5))))"

text \<open>
  The two signatures. An omitted argument is \<open>None\<close>; the defaults are those of lines
  34-36 and 71-74.
\<close>

definition FastBrain ::
  "('s, 'h) env \<Rightarrow> path option \<Rightarrow> int option \<Rightarrow> int option \<Rightarrow> 's world
     \<Rightarrow> (exn + 'h brain) \<times> 's world" where
  "FastBrain env mp n_gpu_layers n_ctx =
     FastBrain_init env mp
       (case n_gpu_layers of None \<Rightarrow> - 1 | Some n \<Rightarrow> n)
       (case n_ctx of None \<Rightarrow> 4096 | Some n \<Rightarrow> n)"

definition generate_response_call ::
  "('s, 'h) env \<Rightarrow> 'h brain \<Rightarrow> string \<Rightarrow> string option \<Rightarrow> real option \<Rightarrow> real option
     \<Rightarrow> int option \<Rightarrow> 's world \<Rightarrow> ((exn + string) \<times> 'h brain) \<times> 's world" where
  "generate_response_call env self user_input system_prompt temperature top_p max_tokens =
     generate_response env self user_input
       (case system_prompt of None \<Rightarrow> AEGIS_SYSTEM_PROMPT | Some s \<Rightarrow> s)
       (case temperature of None \<Rightarrow> 0.7 | Some t \<Rightarrow> t)
       (case top_p of None \<Rightarrow> 0.9 | Some p \<Rightarrow> p)
       (case max_tokens of None \<Rightarrow> 1024 | Some n \<Rightarrow> n)"

subsection \<open>\<^verbatim>\<open>scripts/download_models.py\<close>\<close>

definition REPO_ID :: string where
  "REPO_ID = ''bartowski/Meta-Llama-3.1-8B-Instruct-GGUF''"

definition FILENAME :: string where
  "FILENAME = ''Meta-Llama-3.1-8B-Instruct-Q4_K_M.gguf''"

definition PROJECT_ROOT_dl :: "('s, 'h) env \<Rightarrow> path" where
  "PROJECT_ROOT_dl env = parent (parent (download_models_file env))"

definition MODEL_DIR :: "('s, 'h) env \<Rightarrow> path" where
  "MODEL_DIR env = truediv (truediv (PROJECT_ROOT_dl env) ''models'') ''fast_brain''"

definition call_mkdir :: "('s, 'h) env \<Rightarrow> path \<Rightarrow> 's world \<Rightarrow> (exn + unit) \<times> 's world" where
  "call_mkdir env p w =
     (case mkdir env p (files w) of
        Inl e \<Rightarrow> (Inl e, w\<lparr>calls := calls w @ [MkdirCall p]\<rparr>)
      | Inr fs \<Rightarrow> (Inr (), w\<lparr>files := fs, calls := calls w @ [MkdirCall p]\<rparr>))"

definition call_hf_hub_download ::
  "('s, 'h) env \<Rightarrow> string \<Rightarrow> string \<Rightarrow> path \<Rightarrow> 's world \<Rightarrow> (exn + path) \<times> 's world" where
  "call_hf_hub_download env repo_id filename local_dir w =
     (let (r, s, fs) = hf_hub_download env repo_id filename local_dir (ext w) (files w)
      in (r, w\<lparr>files := fs, calls := calls w @ [HubDownloadCall repo_id filename local_dir],
               ext := s\<rparr>))"

definition download_fast_brain_model ::
  "('s, 'h) env \<Rightarrow> 's world \<Rightarrow> (exn + path) \<times> 's world" where
  "download_fast_brain_model env w0 =
     (let model_path = truediv (MODEL_DIR env) FILENAME
      in if model_path \<in> files w0
         then (Inr model_path, log_msg INFO ''Model already exists: %s'' [PathArg model_path] w0)
         else
           let w1 = log_msg INFO ''Creating model directory: %s'' [PathArg (MODEL_DIR env)] w0;
               (made, w2) = call_mkdir env (MODEL_DIR env) w1
           in case made of
                Inl e \<Rightarrow> (Inl e, w2)
              | Inr _ \<Rightarrow>
                  let w3 = log_msg INFO ''Downloading %s from %s ...''
                             [StrArg FILENAME, StrArg REPO_ID] w2;
                      w4 = log_msg INFO ''This may take a while (~4.9 GB).'' [] w3;
                      (res, w5) = call_hf_hub_download env REPO_ID FILENAME (MODEL_DIR env) w4
                  in (case res of
                        Inl e \<Rightarrow> (Inl e, w5)
                      | Inr downloaded_path \<Rightarrow>
                          (Inr downloaded_path,
                           log_msg INFO ''Download complete: %s'' [PathArg downloaded_path] w5)))"

text \<open>
  How a run of a script ends: it returns from \<^verbatim>\<open>main\<close>, calls \<^verbatim>\<open>sys.exit(n)\<close>, or dies
  of an exception nobody caught. The interpreter turns these into the exit codes 0,
  \<open>n\<close> and 1.
\<close>

datatype outcome = Returned | SystemExit int | Uncaught exn


definition main_download_models :: "('s, 'h) env \<Rightarrow> 's world \<Rightarrow> outcome \<times> 's world" where
  "main_download_models env w0 =
     (let (res, w1) = download_fast_brain_model env w0
      in case res of
           Inr p \<Rightarrow> (Returned, log_msg INFO ''Model ready at: %s'' [PathArg p] w1)
         | Inl e \<Rightarrow> (SystemExit 1, log_msg ERROR ''Failed to download model'' [] w1))"

subsection \<open>\<^verbatim>\<open>tests/test_fast_brain.py\<close>\<close>

text \<open>
  Standard input is the list of what the successive calls of \<^verbatim>\<open>input()\<close> meet: a line
  (without its newline) or an interrupt from the keyboard; at the end of the list
  \<^verbatim>\<open>input()\<close> meets the end of the file. The dash of two log messages is U+2014, given
  here by its three UTF-8 bytes.
\<close>

datatype stdin_event = Line string | CtrlC

definition em_dash :: string where
  "em_dash = [CHR 0xE2, CHR 0x80, CHR 0x94]"

definition input_prompt :: string where
  "input_prompt = CHR 0x0A # ''You: ''"

text \<open>The \<^verbatim>\<open>while True\<close> loop of \<^verbatim>\<open>run_interactive_loop\<close>.\<close>

fun chat_loop ::
  "('s, 'h) env \<Rightarrow> 'h brain \<Rightarrow> stdin_event list \<Rightarrow> 's world \<Rightarrow> (exn + unit) \<times> 's world" where
  "chat_loop env brain [] w0 =
     (Inr (), log_msg INFO (CHR 0x0A # ''Exiting.'') [] (write_stdout input_prompt w0))"
| "chat_loop env brain (CtrlC # rest) w0 =
     (Inr (), log_msg INFO (CHR 0x0A # ''Exiting.'') [] (write_stdout input_prompt w0))"
| "chat_loop env brain (Line l # rest) w0 =
     (let w1 = write_stdout input_prompt w0;
          user_input = py_strip l
      in if user_input = [] then chat_loop env brain rest w1
         else if py_lower user_input \<in> {''quit'', ''exit''}
         then (Inr (), log_msg INFO ''Goodbye.'' [] w1)
         else
           let (start, w2) = monotonic env w1;
               ((res, brain'), w3) =
                  generate_response_call env brain user_input None None None None w2
           in case res of
                Inl e \<Rightarrow> (Inl e, w3)
              | Inr response \<Rightarrow>
                  let (t, w4) = monotonic env w3;
                      elapsed = t - start;
                      w5 = print (CHR 0x0A # ''A.E.G.I.S: '' @ response) w4;
                      w6 = log_msg INFO ''(Response time: %.2fs)'' [FloatArg elapsed] w5
                  in chat_loop env brain' rest w6)"

definition run_interactive_loop ::
  "('s, 'h) env \<Rightarrow> 'h brain \<Rightarrow> stdin_event list \<Rightarrow> 's world \<Rightarrow> (exn + unit) \<times> 's world" where
  "run_interactive_loop env brain stdin w0 =
     (let w1 = log_msg INFO (''A.E.G.I.S Fast Brain '' @ em_dash @ '' Interactive Test'') [] w0;
          w2 = log_msg INFO ''Type 'quit' or 'exit' to stop. Ctrl+C also works.'' [] w1;
          w3 = log_msg INFO (replicate 50 (CHR ''-'')) [] w2
      in chat_loop env brain stdin w3)"




subsection \<open>A concrete installation\<close>

text \<open>
  An installation under \<^verbatim>\<open>/opt/aegis\<close> with a clock that advances by one second per
  read and an engine that answers every conversation with the given text; the theorems
  below are instantiated on it.
\<close>

definition canned_completion :: "string \<Rightarrow> completion" where
  "canned_completion reply =
     \<lparr>choices = [\<lparr>message = \<lparr>role = ''assistant'', content = reply\<rparr>\<rparr>],
      usage = \<lparr>completion_tokens = 1\<rparr>\<rparr>"

definition canned_env :: "string \<Rightarrow> (nat, nat) env" where
  "canned_env reply =
     \<lparr>fast_brain_file = Path True [''opt'', ''aegis'', ''src'', ''core'', ''brains'', ''fast_brain.py''],
      download_models_file = Path True [''opt'', ''aegis'', ''scripts'', ''download_models.py''],
      clock_origin = 0,
      clock_advance = (\<lambda>k. 1000000000),
      Llama = (\<lambda>mp ngl nctx verbose s. (Inr 7, Suc s)),
      create_chat_completion = (\<lambda>h msgs temperature top_p max_tokens s.
         (Inr (canned_completion reply), Suc s)),
      mkdir = (\<lambda>p fs. Inr (insert p fs)),
      hf_hub_download = (\<lambda>repo_id filename local_dir s fs.
         (Inr (truediv local_dir filename), Suc s, insert (truediv local_dir filename) fs))\<rparr>"

text \<open>The same installation with an engine that raises the given exception on every call.\<close>

definition failing_env :: "exn \<Rightarrow> (nat, nat) env" where
  "failing_env e =
     (canned_env [])
       \<lparr>Llama := (\<lambda>mp ngl nctx verbose s. (Inl e, s)),
        create_chat_completion := (\<lambda>h msgs temperature top_p max_tokens s. (Inl e, s))\<rparr>"

definition installed_model :: path where
  "installed_model =
     Path True [''opt'', ''aegis'', ''models'', ''fast_brain'',
                ''Meta-Llama-3.1-8B-Instruct-Q4_K_M.gguf'']"

definition fresh_world :: "path set \<Rightarrow> nat world" where
  "fresh_world fs = \<lparr>files = fs, clock_reads = 0, logs = [], stdout = [], calls = [], ext = 0\<rparr>"

section \<open>Helper facts about the wrapper\<close>

lemma tokens_per_sec_Inr:
  "tokens_per_sec n elapsed = Inr (if elapsed > 0 then of_int n / elapsed else 0)"
  by (simp add: tokens_per_sec_def py_truediv_def)

lemma generate_response_calls:
  "calls (snd (generate_response env self u sp t p m w)) =
     calls w @ [ChatCall [\<lparr>role = ''system'', content = sp\<rparr>, \<lparr>role = ''user'', content = u\<rparr>] t p m]"
  by (simp add: generate_response_def call_create_chat_completion_def monotonic_def log_msg_def
      tokens_per_sec_Inr Let_def split: prod.splits sum.splits list.splits)

lemma generate_response_self:
  "snd (fst (generate_response env self u sp t p m w)) = self"
  by (simp add: generate_response_def call_create_chat_completion_def monotonic_def log_msg_def
      tokens_per_sec_Inr Let_def split: prod.splits sum.splits list.splits)

lemma generate_response_result:
  "fst (fst (generate_response env self u sp t p m w)) =
     (case fst (create_chat_completion env (llm self)
                  [\<lparr>role = ''system'', content = sp\<rparr>, \<lparr>role = ''user'', content = u\<rparr>] t p m (ext w)) of
        Inl e \<Rightarrow> Inl e
      | Inr result \<Rightarrow>
          (case choices result of
             [] \<Rightarrow> Inl (IndexError ''list index out of range'')
           | c # _ \<Rightarrow> Inr (content (message c))))"
  by (simp add: generate_response_def call_create_chat_completion_def monotonic_def log_msg_def
      tokens_per_sec_Inr Let_def split: prod.splits sum.splits list.splits)

lemma FastBrain_init_load:
  assumes "resolve_model_path env mp \<in> files w"
  shows "fst (FastBrain_init env mp ngl nctx w) =
           (case fst (Llama env (str_of_path (resolve_model_path env mp)) ngl nctx False (ext w)) of
              Inl e \<Rightarrow> Inl e
            | Inr h \<Rightarrow> Inr \<lparr>model_path = resolve_model_path env mp, llm = h\<rparr>)"
    and "calls (snd (FastBrain_init env mp ngl nctx w)) =
           calls w @ [LlamaCall (str_of_path (resolve_model_path env mp)) ngl nctx False]"
  using assms
  by (simp_all add: FastBrain_init_def call_Llama_def monotonic_def log_msg_def Let_def
      split: prod.splits sum.splits)

text \<open>Between two successive reads the clock moves on by \<open>clock_advance\<close>, never back.\<close>

lemma monotonic_at_advance:
  "monotonic_at env (Suc k) - monotonic_at env k = real (clock_advance env k) / 1000000000"
  by (simp add: monotonic_at_def add_divide_distrib)

lemma monotonic_at_elapsed_nonneg:
  "0 \<le> monotonic_at env (Suc k) - monotonic_at env k"
  by (simp add: monotonic_at_advance)

text \<open>
  The last record \<^const>\<open>generate_response\<close> logs after a successful call: the token
  count, the elapsed time between its two clock readings, and the throughput.
\<close>

lemma generate_response_last_log:
  assumes "create_chat_completion env (llm self)
             [\<lparr>role = ''system'', content = system_prompt\<rparr>,
              \<lparr>role = ''user'', content = user_input\<rparr>]
             temperature top_p max_tokens (ext w) = (Inr result, s)"
      and "choices result = c # cs"
  shows "last (logs (snd (generate_response env self user_input system_prompt temperature
                            top_p max_tokens w))) =
           (INFO, ''Generated %d tokens in %.2fs (%.1f t/s)'',
            [IntArg (completion_tokens (usage result)),
             FloatArg (monotonic_at env (Suc (clock_reads w)) - monotonic_at env (clock_reads w)),
             FloatArg
               (if 0 < monotonic_at env (Suc (clock_reads w)) - monotonic_at env (clock_reads w)
                then of_int (completion_tokens (usage result)) /
                     (monotonic_at env (Suc (clock_reads w)) - monotonic_at env (clock_reads w))
                else 0)])"
  using assms
  by (simp add: generate_response_def call_create_chat_completion_def monotonic_def log_msg_def
      tokens_per_sec_Inr Let_def)

section \<open>Construction\<close>

text \<open>
  C1. When the resolved model path does not exist on disk, constructing FastBrain raises
  FileNotFoundError whose message names the missing path and tells the operator to run
  the download helper, and the world is left as it was: no log record, no clock read and
  no engine call, so no model load is attempted.
\<close>

theorem init_missing_model:
  assumes "resolve_model_path env mp \<notin> files w"
  shows "FastBrain_init env mp n_gpu_layers n_ctx w =
           (Inl (FileNotFoundError
                  (''Model not found at '' @ str_of_path (resolve_model_path env mp) @
                   ''. Run 'python scripts/download_models.py' first.'')), w)"
  using assms by (simp add: FastBrain_init_def not_found_message_def)

theorem init_missing_model_witness:
  "FastBrain_init (canned_env ''Four'') None (- 1) 4096 (fresh_world {}) =
     (Inl (FileNotFoundError
        ''Model not found at /opt/aegis/models/fast_brain/Meta-Llama-3.1-8B-Instruct-Q4_K_M.gguf. Run 'python scripts/download_models.py' first.''),
      fresh_world {})"
proof -
  have h: "resolve_model_path (canned_env ''Four'') None \<notin> files (fresh_world {})"
    by (simp add: fresh_world_def)
  have p: "str_of_path (resolve_model_path (canned_env ''Four'') None) =
             ''/opt/aegis/models/fast_brain/Meta-Llama-3.1-8B-Instruct-Q4_K_M.gguf''"
    by (simp add: resolve_model_path_def DEFAULT_MODEL_PATH_def PROJECT_ROOT_fb_def parent_def
        truediv_def canned_env_def str_of_path_def)
  show ?thesis
    using init_missing_model [OF h, of "- 1" 4096] by (simp add: p)
qed

text \<open>
  C7. Resolution returns an explicitly supplied path as it is, and without one the default
  \<^verbatim>\<open>models/fast_brain/Meta-Llama-3.1-8B-Instruct-Q4_K_M.gguf\<close> under the directory four
  levels above the module file, which is the installation root when the module lies at
  \<^verbatim>\<open>src/core/brains/fast_brain.py\<close> below it. \<^const>\<open>resolve_model_path\<close> takes no
  world: it can neither look a path up on disk nor change anything.
\<close>

theorem resolve_model_path_contract:
  "resolve_model_path env (Some p) = p
   \<and> resolve_model_path env None =
       truediv (truediv (truediv (parent (parent (parent (parent (fast_brain_file env)))))
                  ''models'') ''fast_brain'') ''Meta-Llama-3.1-8B-Instruct-Q4_K_M.gguf''
   \<and> resolve_model_path
       (env\<lparr>fast_brain_file := Path a (base @ [''src'', ''core'', ''brains'', ''fast_brain.py''])\<rparr>)
       None =
       Path a (base @ [''models'', ''fast_brain'', ''Meta-Llama-3.1-8B-Instruct-Q4_K_M.gguf''])"
  by (simp add: resolve_model_path_def DEFAULT_MODEL_PATH_def PROJECT_ROOT_fb_def parent_def
      truediv_def butlast_append)

section \<open>Generation\<close>

text \<open>
  C2. For every user input (the empty one too), system prompt, temperature, top_p and
  max_tokens, \<^const>\<open>generate_response\<close> makes exactly one external call: the chat
  completion on the two messages system, user, carrying the two texts as given, with the
  given sampling parameters; and when the engine answers with a result that has a first
  choice, the value returned is that choice's message content, a plain string.
\<close>

theorem generate_response_delegates:
  assumes "create_chat_completion env (llm self)
             [\<lparr>role = ''system'', content = system_prompt\<rparr>,
              \<lparr>role = ''user'', content = user_input\<rparr>]
             temperature top_p max_tokens (ext w) = (Inr result, s)"
      and "choices result = c # cs"
  shows "calls (snd (generate_response env self user_input system_prompt temperature top_p
                       max_tokens w)) =
           calls w @ [ChatCall [\<lparr>role = ''system'', content = system_prompt\<rparr>,
                                \<lparr>role = ''user'', content = user_input\<rparr>]
                        temperature top_p max_tokens]
         \<and> fst (fst (generate_response env self user_input system_prompt temperature top_p
                       max_tokens w)) = Inr (content (message c))"
  using assms by (simp add: generate_response_calls generate_response_result)

theorem generate_response_delegates_witness:
  "calls (snd (generate_response (canned_env ''Four'') \<lparr>model_path = installed_model, llm = 7\<rparr>
                 [] ''Be brief.'' 0.5 0.25 16 (fresh_world {installed_model}))) =
     [ChatCall [\<lparr>role = ''system'', content = ''Be brief.''\<rparr>, \<lparr>role = ''user'', content = []\<rparr>]
        0.5 0.25 16]
   \<and> fst (fst (generate_response (canned_env ''Four'') \<lparr>model_path = installed_model, llm = 7\<rparr>
                 [] ''Be brief.'' 0.5 0.25 16 (fresh_world {installed_model}))) = Inr ''Four''"
proof -
  have h1: "create_chat_completion (canned_env ''Four'') (llm \<lparr>model_path = installed_model, llm = 7\<rparr>)
              [\<lparr>role = ''system'', content = ''Be brief.''\<rparr>, \<lparr>role = ''user'', content = []\<rparr>]
              0.5 0.25 16 (ext (fresh_world {installed_model})) =
            (Inr (canned_completion ''Four''), 1)"
    by (simp add: canned_env_def fresh_world_def)
  have h2: "choices (canned_completion ''Four'') =
              \<lparr>message = \<lparr>role = ''assistant'', content = ''Four''\<rparr>\<rparr> # []"
    by (simp add: canned_completion_def)
  show ?thesis
    using generate_response_delegates [OF h1 h2] by (simp add: fresh_world_def)
qed

text \<open>
  C3. After a call in which the engine answered, \<^const>\<open>generate_response\<close> has measured
  the elapsed time as the difference of two successive readings of the monotonic clock,
  which is never negative, and has reported, for whatever completion-token count the
  engine gave, a tokens-per-second value and no error: zero when the elapsed time is
  exactly zero, the token count divided by the elapsed time otherwise; the call returns
  the response text, so no ZeroDivisionError has been raised. The guarded division of
  line 111 yields a value on every token count and every elapsed time whatsoever.
\<close>

theorem generate_response_throughput:
  assumes "create_chat_completion env (llm self)
             [\<lparr>role = ''system'', content = system_prompt\<rparr>,
              \<lparr>role = ''user'', content = user_input\<rparr>]
             temperature top_p max_tokens (ext w) = (Inr result, s)"
      and "choices result = c # cs"
  shows "0 \<le> monotonic_at env (Suc (clock_reads w)) - monotonic_at env (clock_reads w)
         \<and> last (logs (snd (generate_response env self user_input system_prompt temperature
                              top_p max_tokens w))) =
             (INFO, ''Generated %d tokens in %.2fs (%.1f t/s)'',
              [IntArg (completion_tokens (usage result)),
               FloatArg (monotonic_at env (Suc (clock_reads w)) - monotonic_at env (clock_reads w)),
               FloatArg
                 (if monotonic_at env (Suc (clock_reads w)) - monotonic_at env (clock_reads w) = 0
                  then 0
                  else of_int (completion_tokens (usage result)) /
                       (monotonic_at env (Suc (clock_reads w)) - monotonic_at env (clock_reads w)))])
         \<and> fst (fst (generate_response env self user_input system_prompt temperature top_p
                         max_tokens w)) = Inr (content (message c))
         \<and> (\<forall>token_count elapsed.
               tokens_per_sec token_count elapsed =
                 Inr (if 0 < elapsed then of_int token_count / elapsed else 0))"
proof -
  let ?elapsed = "monotonic_at env (Suc (clock_reads w)) - monotonic_at env (clock_reads w)"
  have nonneg: "0 \<le> ?elapsed"
    by (rule monotonic_at_elapsed_nonneg)
  then have guard: "(0 < ?elapsed) = (?elapsed \<noteq> 0)"
    by linarith
  have "last (logs (snd (generate_response env self user_input system_prompt temperature
                           top_p max_tokens w))) =
          (INFO, ''Generated %d tokens in %.2fs (%.1f t/s)'',
           [IntArg (completion_tokens (usage result)), FloatArg ?elapsed,
            FloatArg (if ?elapsed = 0 then 0
                      else of_int (completion_tokens (usage result)) / ?elapsed)])"
    unfolding generate_response_last_log [OF assms] guard by simp
  moreover have "fst (fst (generate_response env self user_input system_prompt temperature top_p
                         max_tokens w)) = Inr (content (message c))"
    using assms by (simp add: generate_response_result)
  ultimately show ?thesis
    using nonneg by (simp add: tokens_per_sec_Inr)
qed

theorem generate_response_throughput_witness:
  "last (logs (snd (generate_response ((canned_env ''Four'')\<lparr>clock_advance := (\<lambda>k. 0)\<rparr>)
                      \<lparr>model_path = installed_model, llm = 7\<rparr> ''hello'' ''Be brief.''
                      0.7 0.9 1024 (fresh_world {installed_model})))) =
     (INFO, ''Generated %d tokens in %.2fs (%.1f t/s)'', [IntArg 1, FloatArg 0, FloatArg 0])
   \<and> last (logs (snd (generate_response ((canned_env ''Four'')\<lparr>clock_advance := (\<lambda>k. 500000000)\<rparr>)
                        \<lparr>model_path = installed_model, llm = 7\<rparr> ''hello'' ''Be brief.''
                        0.7 0.9 1024 (fresh_world {installed_model})))) =
     (INFO, ''Generated %d tokens in %.2fs (%.1f t/s)'', [IntArg 1, FloatArg (1 / 2), FloatArg 2])"
proof -
  have h1: "create_chat_completion ((canned_env ''Four'')\<lparr>clock_advance := a\<rparr>)
              (llm \<lparr>model_path = installed_model, llm = 7\<rparr>)
              [\<lparr>role = ''system'', content = ''Be brief.''\<rparr>, \<lparr>role = ''user'', content = ''hello''\<rparr>]
              0.7 0.9 1024 (ext (fresh_world {installed_model})) =
            (Inr (canned_completion ''Four''), 1)" for a
    by (simp add: canned_env_def fresh_world_def)
  have h2: "choices (canned_completion ''Four'') =
              \<lparr>message = \<lparr>role = ''assistant'', content = ''Four''\<rparr>\<rparr> # []"
    by (simp add: canned_completion_def)
  have n: "completion_tokens (usage (canned_completion ''Four'')) = 1"
    by (simp add: canned_completion_def)
  have r: "clock_reads (fresh_world {installed_model}) = 0"
    by (simp add: fresh_world_def)
  have e0: "monotonic_at ((canned_env ''Four'')\<lparr>clock_advance := (\<lambda>k. 0)\<rparr>) (Suc 0) -
            monotonic_at ((canned_env ''Four'')\<lparr>clock_advance := (\<lambda>k. 0)\<rparr>) 0 = 0"
    by (simp add: monotonic_at_advance)
  have e1: "monotonic_at ((canned_env ''Four'')\<lparr>clock_advance := (\<lambda>k. 500000000)\<rparr>) (Suc 0) -
            monotonic_at ((canned_env ''Four'')\<lparr>clock_advance := (\<lambda>k. 500000000)\<rparr>) 0 = 1 / 2"
    by (simp add: monotonic_at_advance)
  from generate_response_throughput [OF h1 h2, of "\<lambda>k. 0"]
  have a: "last (logs (snd (generate_response ((canned_env ''Four'')\<lparr>clock_advance := (\<lambda>k. 0)\<rparr>)
                      \<lparr>model_path = installed_model, llm = 7\<rparr> ''hello'' ''Be brief.''
                      0.7 0.9 1024 (fresh_world {installed_model})))) =
     (INFO, ''Generated %d tokens in %.2fs (%.1f t/s)'', [IntArg 1, FloatArg 0, FloatArg 0])"
    unfolding n r e0 by simp
  from generate_response_throughput [OF h1 h2, of "\<lambda>k. 500000000"]
  have b: "last (logs (snd (generate_response ((canned_env ''Four'')\<lparr>clock_advance := (\<lambda>k. 500000000)\<rparr>)
                        \<lparr>model_path = installed_model, llm = 7\<rparr> ''hello'' ''Be brief.''
                        0.7 0.9 1024 (fresh_world {installed_model})))) =
     (INFO, ''Generated %d tokens in %.2fs (%.1f t/s)'', [IntArg 1, FloatArg (1 / 2), FloatArg 2])"
    unfolding n r e1 by simp
  from a b show ?thesis by (rule conjI)
qed

text \<open>
  C5. \<^const>\<open>generate_response\<close> returns the instance as it received it, model path and
  engine handle alike; and of two calls in sequence on the same instance, the second
  hands the engine the conversation made of its own system prompt and its own user input
  and nothing else, whatever the first call was given.
\<close>

theorem generate_response_stateless:
  "snd (fst (generate_response env self u1 sp1 t1 p1 m1 w)) = self
   \<and> snd (fst (generate_response env self u2 sp2 t2 p2 m2
                 (snd (generate_response env self u1 sp1 t1 p1 m1 w)))) = self
   \<and> calls (snd (generate_response env self u2 sp2 t2 p2 m2
                   (snd (generate_response env self u1 sp1 t1 p1 m1 w)))) =
       calls w @
         [ChatCall [\<lparr>role = ''system'', content = sp1\<rparr>, \<lparr>role = ''user'', content = u1\<rparr>] t1 p1 m1,
          ChatCall [\<lparr>role = ''system'', content = sp2\<rparr>, \<lparr>role = ''user'', content = u2\<rparr>] t2 p2 m2]"
  by (simp add: generate_response_calls generate_response_self)

text \<open>
  C6. An exception raised by the engine while loading the model is what the constructor
  raises, and an exception raised by the engine's chat completion is what
  \<^const>\<open>generate_response\<close> raises: the same value, neither replaced nor swallowed, after
  exactly one call of the engine (no second attempt).
\<close>

theorem engine_failures_propagate:
  "(resolve_model_path env mp \<in> files w \<and>
    fst (Llama env (str_of_path (resolve_model_path env mp)) n_gpu_layers n_ctx False (ext w)) = Inl e
      \<longrightarrow> fst (FastBrain_init env mp n_gpu_layers n_ctx w) = Inl e
          \<and> calls (snd (FastBrain_init env mp n_gpu_layers n_ctx w)) =
              calls w @ [LlamaCall (str_of_path (resolve_model_path env mp)) n_gpu_layers n_ctx False])
   \<and> (fst (create_chat_completion env (llm self)
             [\<lparr>role = ''system'', content = system_prompt\<rparr>,
              \<lparr>role = ''user'', content = user_input\<rparr>]
             temperature top_p max_tokens (ext w)) = Inl e'
      \<longrightarrow> fst (fst (generate_response env self user_input system_prompt temperature top_p
                       max_tokens w)) = Inl e'
          \<and> calls (snd (generate_response env self user_input system_prompt temperature top_p
                          max_tokens w)) =
              calls w @ [ChatCall [\<lparr>role = ''system'', content = system_prompt\<rparr>,
                                   \<lparr>role = ''user'', content = user_input\<rparr>]
                           temperature top_p max_tokens])"
  by (simp add: FastBrain_init_load generate_response_calls generate_response_result)

theorem engine_failures_propagate_witness:
  "fst (FastBrain_init (failing_env (OtherError ''ValueError'' ''engine failure''))
          None (- 1) 4096 (fresh_world {installed_model})) =
     Inl (OtherError ''ValueError'' ''engine failure'')
   \<and> fst (fst (generate_response (failing_env (OtherError ''ValueError'' ''engine failure''))
                 \<lparr>model_path = installed_model, llm = 7\<rparr> ''hello'' ''Be brief.'' 0.7 0.9 1024
                 (fresh_world {installed_model}))) =
     Inl (OtherError ''ValueError'' ''engine failure'')"
proof -
  have r: "resolve_model_path (failing_env x) None = installed_model" for x
    by (simp add: resolve_model_path_def DEFAULT_MODEL_PATH_def PROJECT_ROOT_fb_def parent_def
        truediv_def failing_env_def canned_env_def installed_model_def)
  have h1: "resolve_model_path (failing_env (OtherError ''ValueError'' ''engine failure'')) None
              \<in> files (fresh_world {installed_model})
            \<and> fst (Llama (failing_env (OtherError ''ValueError'' ''engine failure''))
                     (str_of_path (resolve_model_path
                        (failing_env (OtherError ''ValueError'' ''engine failure'')) None))
                     (- 1) 4096 False (ext (fresh_world {installed_model}))) =
              Inl (OtherError ''ValueError'' ''engine failure'')"
    by (simp add: r) (simp add: failing_env_def fresh_world_def)
  have h2: "fst (create_chat_completion (failing_env (OtherError ''ValueError'' ''engine failure''))
                   (llm \<lparr>model_path = installed_model, llm = 7\<rparr>)
                   [\<lparr>role = ''system'', content = ''Be brief.''\<rparr>,
                    \<lparr>role = ''user'', content = ''hello''\<rparr>]
                   0.7 0.9 1024 (ext (fresh_world {installed_model}))) =
            Inl (OtherError ''ValueError'' ''engine failure'')"
    by (simp add: failing_env_def)
  show ?thesis
    using h1 h2
      engine_failures_propagate
         [where env = "failing_env (OtherError ''ValueError'' ''engine failure'')"
            and mp = None and w = "fresh_world {installed_model}"
            and n_gpu_layers = "- 1" and n_ctx = 4096
            and e = "OtherError ''ValueError'' ''engine failure''"
            and e' = "OtherError ''ValueError'' ''engine failure''"
            and self = "\<lparr>model_path = installed_model, llm = 7\<rparr>"
            and system_prompt = "''Be brief.''" and user_input = "''hello''"
            and temperature = "0.7" and top_p = "0.9" and max_tokens = 1024]
    by blast
qed

text \<open>
  C8. With the optional arguments omitted, the constructor loads the model with
  \<^verbatim>\<open>n_gpu_layers = -1\<close> and \<^verbatim>\<open>n_ctx = 4096\<close>, and \<^verbatim>\<open>generate_response\<close> calls the
  engine with the registry's system prompt, temperature 0.7, top_p 0.9 and max_tokens
  1024.
\<close>

theorem interface_defaults:
  "(resolve_model_path env mp \<in> files w \<longrightarrow>
      calls (snd (FastBrain env mp None None w)) =
        calls w @ [LlamaCall (str_of_path (resolve_model_path env mp)) (- 1) 4096 False])
   \<and> calls (snd (generate_response_call env self user_input None None None None w)) =
       calls w @
         [ChatCall
            [\<lparr>role = ''system'',
              content = ''You are A.E.G.I.S, a private, secure, local AI assistant. You are concise, helpful, and technical.''\<rparr>,
             \<lparr>role = ''user'', content = user_input\<rparr>]
            0.7 0.9 1024]"
  by (simp add: FastBrain_def generate_response_call_def FastBrain_init_load
      generate_response_calls AEGIS_SYSTEM_PROMPT_def)

theorem interface_defaults_witness:
  "calls (snd (FastBrain (canned_env ''Four'') None None None (fresh_world {installed_model}))) =
     [LlamaCall ''/opt/aegis/models/fast_brain/Meta-Llama-3.1-8B-Instruct-Q4_K_M.gguf''
        (- 1) 4096 False]"
proof -
  have r: "resolve_model_path (canned_env ''Four'') None = installed_model"
    by (simp add: resolve_model_path_def DEFAULT_MODEL_PATH_def PROJECT_ROOT_fb_def parent_def
        truediv_def canned_env_def installed_model_def)
  have h: "resolve_model_path (canned_env ''Four'') None \<in> files (fresh_world {installed_model})"
    by (simp add: r fresh_world_def)
  have p: "str_of_path installed_model =
             ''/opt/aegis/models/fast_brain/Meta-Llama-3.1-8B-Instruct-Q4_K_M.gguf''"
    by (simp add: installed_model_def str_of_path_def)
  show ?thesis
    using h interface_defaults
             [where env = "canned_env ''Four''" and mp = None
                and w = "fresh_world {installed_model}"]
    by (simp add: r p fresh_world_def)
qed

section \<open>The download helper\<close>

text \<open>
  C9. When the target model file already exists, the download helper returns its path,
  makes no external call (no directory creation, no hub transfer) and leaves the files
  and the collaborators' state as they were; so a second invocation finds the file
  again, returns the same path and again transfers nothing.
\<close>

theorem download_idempotent:
  assumes "truediv (MODEL_DIR env) FILENAME \<in> files w"
  shows "fst (download_fast_brain_model env w) = Inr (truediv (MODEL_DIR env) FILENAME)
         \<and> calls (snd (download_fast_brain_model env w)) = calls w
         \<and> files (snd (download_fast_brain_model env w)) = files w
         \<and> ext (snd (download_fast_brain_model env w)) = ext w
         \<and> fst (download_fast_brain_model env (snd (download_fast_brain_model env w))) =
             Inr (truediv (MODEL_DIR env) FILENAME)
         \<and> calls (snd (download_fast_brain_model env (snd (download_fast_brain_model env w)))) =
             calls w"
  using assms by (simp add: download_fast_brain_model_def log_msg_def Let_def)

theorem download_idempotent_witness:
  "fst (download_fast_brain_model (canned_env ''Four'') (fresh_world {installed_model})) =
     Inr installed_model
   \<and> calls (snd (download_fast_brain_model (canned_env ''Four'')
                   (snd (download_fast_brain_model (canned_env ''Four'')
                           (fresh_world {installed_model}))))) = []"
proof -
  have m: "truediv (MODEL_DIR (canned_env ''Four'')) FILENAME = installed_model"
    by (simp add: MODEL_DIR_def PROJECT_ROOT_dl_def parent_def truediv_def canned_env_def
        FILENAME_def installed_model_def)
  have h: "truediv (MODEL_DIR (canned_env ''Four'')) FILENAME \<in> files (fresh_world {installed_model})"
    by (simp add: m fresh_world_def)
  show ?thesis
    using download_idempotent [OF h] by (simp add: m fresh_world_def)
qed

section \<open>The test harness\<close>

lemma generate_response_call_calls:
  "calls (snd (generate_response_call env self u None None None None w)) =
     calls w @ [ChatCall [\<lparr>role = ''system'', content = AEGIS_SYSTEM_PROMPT\<rparr>,
                          \<lparr>role = ''user'', content = u\<rparr>] 0.7 0.9 1024]"
  by (simp add: generate_response_call_def generate_response_calls)




lemma calls_log_msg: "calls (log_msg lv fmt args w) = calls w"
  by (simp add: log_msg_def)

lemma calls_write_stdout: "calls (write_stdout s w) = calls w"
  by (simp add: write_stdout_def)

lemma calls_print: "calls (print s w) = calls w"
  by (simp add: print_def calls_write_stdout)

lemma calls_monotonic: "calls (snd (monotonic env w)) = calls w"
  by (simp add: monotonic_def)

lemma chat_loop_empty:
  "py_strip l = [] \<Longrightarrow>
   chat_loop env brain (Line l # rest) w = chat_loop env brain rest (write_stdout input_prompt w)"
  by (simp add: Let_def)

lemma chat_loop_quit:
  "py_lower (py_strip l) \<in> {''quit'', ''exit''} \<Longrightarrow>
   chat_loop env brain (Line l # rest) w =
     (Inr (), log_msg INFO ''Goodbye.'' [] (write_stdout input_prompt w))"
  by (auto simp add: Let_def py_lower_def)

lemma chat_loop_go:
  "py_strip l \<noteq> [] \<Longrightarrow> py_lower (py_strip l) \<notin> {''quit'', ''exit''} \<Longrightarrow>
   chat_loop env brain (Line l # rest) w =
     (let w1 = write_stdout input_prompt w;
          g = generate_response_call env brain (py_strip l) None None None None
                (snd (monotonic env w1))
      in case fst (fst g) of
           Inl e \<Rightarrow> (Inl e, snd g)
         | Inr response \<Rightarrow>
             chat_loop env (snd (fst g)) rest
               (log_msg INFO ''(Response time: %.2fs)''
                  [FloatArg (fst (monotonic env (snd g)) - fst (monotonic env w1))]
                  (print (CHR 0x0A # ''A.E.G.I.S: '' @ response) (snd (monotonic env (snd g))))))"
  by (simp add: Let_def split: prod.splits sum.splits)

lemma chat_loop_calls:
  "\<exists>cs. calls (snd (chat_loop env brain stdin w)) = calls w @ cs \<and>
        (\<forall>c \<in> set cs. \<exists>l. Line l \<in> set stdin \<and> py_strip l \<noteq> [] \<and>
            py_lower (py_strip l) \<notin> {''quit'', ''exit''} \<and>
            c = ChatCall [\<lparr>role = ''system'', content = AEGIS_SYSTEM_PROMPT\<rparr>,
                          \<lparr>role = ''user'', content = py_strip l\<rparr>] 0.7 0.9 1024)"
proof (induction stdin arbitrary: brain w)
  case Nil
  show ?case by (simp add: calls_log_msg calls_write_stdout)
next
  case (Cons ev rest)
  show ?case
  proof (cases ev)
    case CtrlC
    then show ?thesis by (simp add: calls_log_msg calls_write_stdout)
  next
    case (Line l)
    let ?P = "\<lambda>evs c. \<exists>l. Line l \<in> set evs \<and> py_strip l \<noteq> [] \<and>
            py_lower (py_strip l) \<notin> {''quit'', ''exit''} \<and>
            c = ChatCall [\<lparr>role = ''system'', content = AEGIS_SYSTEM_PROMPT\<rparr>,
                          \<lparr>role = ''user'', content = py_strip l\<rparr>] 0.7 0.9 1024"
    consider (empty) "py_strip l = []"
      | (quit) "py_lower (py_strip l) \<in> {''quit'', ''exit''}"
      | (go) "py_strip l \<noteq> []" "py_lower (py_strip l) \<notin> {''quit'', ''exit''}"
      by blast
    then show ?thesis
    proof cases
      case empty
      from Cons.IH [of brain "write_stdout input_prompt w"]
      obtain cs where cs: "calls (snd (chat_loop env brain rest (write_stdout input_prompt w))) =
                             calls w @ cs" "\<forall>c \<in> set cs. ?P rest c"
        by (auto simp add: calls_write_stdout)
      from cs(2) have "\<forall>c \<in> set cs. ?P (ev # rest) c" by auto
      with cs(1) show ?thesis
        unfolding Line chat_loop_empty [OF empty] by blast
    next
      case quit
      show ?thesis
        unfolding Line chat_loop_quit [OF quit]
        by (simp add: calls_log_msg calls_write_stdout)
    next
      case go
      let ?w1 = "write_stdout input_prompt w"
      let ?g = "generate_response_call env brain (py_strip l) None None None None
                  (snd (monotonic env ?w1))"
      let ?c = "ChatCall [\<lparr>role = ''system'', content = AEGIS_SYSTEM_PROMPT\<rparr>,
                          \<lparr>role = ''user'', content = py_strip l\<rparr>] 0.7 0.9 1024"
      have g: "calls (snd ?g) = calls w @ [?c]"
        by (simp add: generate_response_call_calls calls_monotonic calls_write_stdout)
      have c: "?P (ev # rest) ?c"
        using go Line by auto
      show ?thesis
      proof (cases "fst (fst ?g)")
        case (Inl e)
        then have "chat_loop env brain (Line l # rest) w = (Inl e, snd ?g)"
          by (simp add: chat_loop_go [OF go] Let_def del: chat_loop.simps)
        with g c show ?thesis
          unfolding Line by (intro exI [of _ "[?c]"]) simp
      next
        case (Inr response)
        let ?w6 = "log_msg INFO ''(Response time: %.2fs)''
                  [FloatArg (fst (monotonic env (snd ?g)) - fst (monotonic env ?w1))]
                  (print (CHR 0x0A # ''A.E.G.I.S: '' @ response) (snd (monotonic env (snd ?g))))"
        from Inr have eq: "chat_loop env brain (Line l # rest) w =
                             chat_loop env (snd (fst ?g)) rest ?w6"
          by (simp add: chat_loop_go [OF go] Let_def del: chat_loop.simps)
        have w6: "calls ?w6 = calls w @ [?c]"
          by (simp add: calls_log_msg calls_print calls_monotonic g)
        from Cons.IH [of "snd (fst ?g)" ?w6]
        obtain cs where cs: "calls (snd (chat_loop env (snd (fst ?g)) rest ?w6)) =
                               calls ?w6 @ cs" "\<forall>c \<in> set cs. ?P rest c"
          by blast
        from cs(2) have "\<forall>c \<in> set cs. ?P (ev # rest) c" by auto
        with c have "\<forall>c \<in> set (?c # cs). ?P (ev # rest) c" by simp
        moreover have "calls (snd (chat_loop env brain (ev # rest) w)) = calls w @ (?c # cs)"
          unfolding Line eq cs(1) w6 by simp
        ultimately show ?thesis by blast
      qed
    qed
  qed
qed



text \<open>
  C10. In an iteration of the interactive loop whose line is empty after stripping, the
  loop only prints the prompt and goes on to the next line; in one whose stripped line is
  \<^verbatim>\<open>quit\<close> or \<^verbatim>\<open>exit\<close> in any letter case, the loop ends there, whatever follows on
  the input, and no call has been made. Over the whole loop every external call is a chat
  completion (that of \<^verbatim>\<open>generate_response\<close> with its defaults) whose user message is the
  stripped text of a line that was read, non-empty and neither \<^verbatim>\<open>quit\<close> nor \<^verbatim>\<open>exit\<close>.
\<close>

theorem interactive_loop_guards:
  "(py_strip l = [] \<longrightarrow>
      chat_loop env brain (Line l # rest) w =
        chat_loop env brain rest (write_stdout input_prompt w))
   \<and> (py_lower (py_strip l) \<in> {''quit'', ''exit''} \<longrightarrow>
        chat_loop env brain (Line l # rest) w =
          (Inr (), log_msg INFO ''Goodbye.'' [] (write_stdout input_prompt w))
        \<and> calls (snd (chat_loop env brain (Line l # rest) w)) = calls w)
   \<and> (\<exists>cs. calls (snd (run_interactive_loop env brain stdin w)) = calls w @ cs \<and>
         (\<forall>c \<in> set cs. \<exists>l. Line l \<in> set stdin \<and> py_strip l \<noteq> [] \<and>
            py_lower (py_strip l) \<notin> {''quit'', ''exit''} \<and>
            c = ChatCall [\<lparr>role = ''system'', content = AEGIS_SYSTEM_PROMPT\<rparr>,
                          \<lparr>role = ''user'', content = py_strip l\<rparr>] 0.7 0.9 1024))"
proof (intro conjI impI)
  assume "py_strip l = []"
  then show "chat_loop env brain (Line l # rest) w =
               chat_loop env brain rest (write_stdout input_prompt w)"
    by (rule chat_loop_empty)
next
  assume q: "py_lower (py_strip l) \<in> {''quit'', ''exit''}"
  then show "chat_loop env brain (Line l # rest) w =
          (Inr (), log_msg INFO ''Goodbye.'' [] (write_stdout input_prompt w))"
    by (rule chat_loop_quit)
  show "calls (snd (chat_loop env brain (Line l # rest) w)) = calls w"
    unfolding chat_loop_quit [OF q] by (simp add: calls_log_msg calls_write_stdout)
next
  let ?w3 = "log_msg INFO (replicate 50 (CHR ''-'')) []
               (log_msg INFO ''Type 'quit' or 'exit' to stop. Ctrl+C also works.'' []
                  (log_msg INFO (''A.E.G.I.S Fast Brain '' @ em_dash @ '' Interactive Test'') [] w))"
  have "run_interactive_loop env brain stdin w = chat_loop env brain stdin ?w3"
    by (simp add: run_interactive_loop_def Let_def)
  moreover have "calls ?w3 = calls w"
    by (simp add: calls_log_msg)
  ultimately show "\<exists>cs. calls (snd (run_interactive_loop env brain stdin w)) = calls w @ cs \<and>
         (\<forall>c \<in> set cs. \<exists>l. Line l \<in> set stdin \<and> py_strip l \<noteq> [] \<and>
            py_lower (py_strip l) \<notin> {''quit'', ''exit''} \<and>
            c = ChatCall [\<lparr>role = ''system'', content = AEGIS_SYSTEM_PROMPT\<rparr>,
                          \<lparr>role = ''user'', content = py_strip l\<rparr>] 0.7 0.9 1024)"
    using chat_loop_calls [of env brain stdin ?w3] by simp
qed

theorem interactive_loop_guards_witness:
  "chat_loop (canned_env ''Four'') \<lparr>model_path = installed_model, llm = 7\<rparr>
     (Line ''   '' # [Line ''later'']) (fresh_world {installed_model}) =
   chat_loop (canned_env ''Four'') \<lparr>model_path = installed_model, llm = 7\<rparr>
     [Line ''later''] (write_stdout input_prompt (fresh_world {installed_model}))
   \<and> chat_loop (canned_env ''Four'') \<lparr>model_path = installed_model, llm = 7\<rparr>
       (Line '' QUIT '' # [Line ''later'']) (fresh_world {installed_model}) =
     (Inr (), log_msg INFO ''Goodbye.'' [] (write_stdout input_prompt (fresh_world {installed_model})))
   \<and> calls (snd (chat_loop (canned_env ''Four'') \<lparr>model_path = installed_model, llm = 7\<rparr>
                   (Line '' QUIT '' # [Line ''later'']) (fresh_world {installed_model}))) =
     calls (fresh_world {installed_model})
   \<and> calls (snd (run_interactive_loop (canned_env ''Four'')
                   \<lparr>model_path = installed_model, llm = 7\<rparr>
                   [Line ''   '', Line '' hi '', Line ''exit'', Line ''later'']
                   (fresh_world {installed_model}))) =
     [ChatCall [\<lparr>role = ''system'', content = AEGIS_SYSTEM_PROMPT\<rparr>,
                \<lparr>role = ''user'', content = ''hi''\<rparr>] 0.7 0.9 1024]"
proof -
  have s1: "py_strip ''   '' = []" and s2: "py_strip '' hi '' = ''hi''"
    and s3: "py_strip ''exit'' = ''exit''" and s4: "py_strip '' QUIT '' = ''QUIT''"
    by (simp_all add: py_strip_def py_isspace_def)
  have l2: "py_lower ''hi'' = ''hi''" and l3: "py_lower ''exit'' = ''exit''"
    by (simp_all add: py_lower_def py_lower_char_def)
  have l4: "py_lower ''QUIT'' = ''quit''"
    by code_simp
  have h2: "py_lower (py_strip '' QUIT '') \<in> {''quit'', ''exit''}"
    by (simp add: s4 l4)
  have ex: "calls (snd (run_interactive_loop (canned_env ''Four'')
                   \<lparr>model_path = installed_model, llm = 7\<rparr>
                   [Line ''   '', Line '' hi '', Line ''exit'', Line ''later'']
                   (fresh_world {installed_model}))) =
     [ChatCall [\<lparr>role = ''system'', content = AEGIS_SYSTEM_PROMPT\<rparr>,
                \<lparr>role = ''user'', content = ''hi''\<rparr>] 0.7 0.9 1024]"
    by (simp add: run_interactive_loop_def s1 s2 s3 l2 l3 Let_def split_def
        generate_response_call_def generate_response_calls generate_response_self
        generate_response_result
        calls_log_msg calls_write_stdout calls_print calls_monotonic
        canned_env_def canned_completion_def fresh_world_def)
  from s1 interactive_loop_guards
         [where l = "''   ''" and env = "canned_env ''Four''"
            and brain = "\<lparr>model_path = installed_model, llm = 7\<rparr>"
            and rest = "[Line ''later'']" and w = "fresh_world {installed_model}"]
  have a: "chat_loop (canned_env ''Four'') \<lparr>model_path = installed_model, llm = 7\<rparr>
     (Line ''   '' # [Line ''later'']) (fresh_world {installed_model}) =
   chat_loop (canned_env ''Four'') \<lparr>model_path = installed_model, llm = 7\<rparr>
     [Line ''later''] (write_stdout input_prompt (fresh_world {installed_model}))"
    by blast
  from h2 interactive_loop_guards
         [where l = "'' QUIT ''" and env = "canned_env ''Four''"
            and brain = "\<lparr>model_path = installed_model, llm = 7\<rparr>"
            and rest = "[Line ''later'']" and w = "fresh_world {installed_model}"]
  have b: "chat_loop (canned_env ''Four'') \<lparr>model_path = installed_model, llm = 7\<rparr>
       (Line '' QUIT '' # [Line ''later'']) (fresh_world {installed_model}) =
     (Inr (), log_msg INFO ''Goodbye.'' [] (write_stdout input_prompt (fresh_world {installed_model})))
   \<and> calls (snd (chat_loop (canned_env ''Four'') \<lparr>model_path = installed_model, llm = 7\<rparr>
                   (Line '' QUIT '' # [Line ''later'']) (fresh_world {installed_model}))) =
     calls (fresh_world {installed_model})"
    by blast
  from a b ex show ?thesis by blast
qed

end
